theory Spec2Isabelle
  imports Main
begin

section \<open>The AGIdentity Python client (examples/python-client.py)\<close>

text \<open>
  The script is a class \<open>AGIdentityClient\<close> with five methods, each one call of the
  \<open>requests\<close> library followed by \<open>response.json()\<close>, and a driver under
  \<open>if __name__ == "__main__"\<close>. The library, the network and the remote service are
  not part of the script: they enter the model as one parameter, the transport.
\<close>

subsection \<open>Values\<close>

text \<open>
  The values \<open>json.loads\<close> produces and \<open>json.dumps\<close> accepts: \<open>None\<close>, \<open>bool\<close>,
  \<open>int\<close>, \<open>float\<close>, \<open>str\<close>, \<open>list\<close> and \<open>dict\<close> with string keys. A dict keeps
  its insertion order, so it is an association list. A float is kept as its literal
  text: the script never computes with one.
\<close>

datatype json_value =
    JNull
  | JBool bool
  | JInt int
  | JFloat string
  | JStr string
  | JArr "json_value list"
  | JObj "(string \<times> json_value) list"

text \<open>
  The exceptions that can leave the script. \<open>ConnectionError\<close> stands for what
  \<open>requests.get\<close> and \<open>requests.post\<close> raise when no response is obtained (the
  spec's NetworkError); \<open>JSONDecodeError\<close> is raised by \<open>response.json()\<close> on a
  body that is not JSON; \<open>KeyError\<close> and \<open>TypeError\<close> come from the subscripts of
  the driver.
\<close>

datatype error =
    ConnectionError
  | JSONDecodeError
  | KeyError string
  | TypeError

subsection \<open>The HTTP library and the world behind it\<close>

datatype http_verb = GET | POST

text \<open>
  A request as the script hands it to \<open>requests\<close>: the function called
  (\<open>requests.get\<close> or \<open>requests.post\<close>), the URL and the \<open>json=\<close> keyword
  argument, absent for a GET.
\<close>

record request =
  verb :: http_verb
  url :: string
  json :: "json_value option"

text \<open>
  A \<open>Response\<close> object, as far as the script looks at it (and beyond: the script never
  reads \<open>status_code\<close>). \<open>decoded\<close> is what decoding the body as JSON gives,
  \<open>None\<close> when the body is not JSON.
\<close>

record response =
  status_code :: nat
  decoded :: "json_value option"

text \<open>
  The transport is everything beyond the call of \<open>requests.get\<close> or
  \<open>requests.post\<close>: the library, the network and the remote service, with a state
  \<open>'n\<close> of their own. On a request it either raises (\<open>Inl\<close>) or returns a response.
\<close>

type_synonym 'n transport = "'n \<Rightarrow> request \<Rightarrow> (error + response) \<times> 'n"

text \<open>
  The world: the log of the exchanges made so far (each request with the reply it got),
  oldest first, and the state of the transport.
\<close>

record 'n world =
  exchanges :: "(request \<times> (error + response)) list"
  net :: 'n

definition requests_request ::
  "'n transport \<Rightarrow> request \<Rightarrow> 'n world \<Rightarrow> (error + response) \<times> 'n world" where
  "requests_request tr req w =
     (case tr (net w) req of
        (reply, n') \<Rightarrow> (reply, \<lparr>exchanges = exchanges w @ [(req, reply)], net = n'\<rparr>))"

definition requests_get ::
  "'n transport \<Rightarrow> string \<Rightarrow> 'n world \<Rightarrow> (error + response) \<times> 'n world" where
  "requests_get tr u w = requests_request tr \<lparr>verb = GET, url = u, json = None\<rparr> w"

definition requests_post ::
  "'n transport \<Rightarrow> string \<Rightarrow> json_value \<Rightarrow> 'n world \<Rightarrow> (error + response) \<times> 'n world" where
  "requests_post tr u j w = requests_request tr \<lparr>verb = POST, url = u, json = Some j\<rparr> w"

text \<open>\<open>response.json()\<close>: the decoded body, or the decoder's exception.\<close>

definition response_json :: "response \<Rightarrow> error + json_value" where
  "response_json r = (case decoded r of None \<Rightarrow> Inl JSONDecodeError | Some v \<Rightarrow> Inr v)"

subsection \<open>The client\<close>

definition AGID_API :: string where
  "AGID_API = ''http://localhost:3000''"

record client =
  api_url :: string

text \<open>
  \<open>__init__(self, api_url=AGID_API)\<close>. An argument with a default is an option:
  \<open>None\<close> when the caller leaves it out.
\<close>

definition AGIdentityClient :: "string option \<Rightarrow> client" where
  "AGIdentityClient api_url_arg =
     \<lparr>api_url = (case api_url_arg of None \<Rightarrow> AGID_API | Some u \<Rightarrow> u)\<rparr>"

text \<open>
  A method takes the transport, \<open>self\<close>, its arguments and the world, and returns
  what it returns or raises, \<open>self\<close> as it leaves it, and the world after the call.
  The arguments are Python values: the script puts them into the body as they come.
\<close>

type_synonym 'n outcome = "(error + json_value) \<times> client \<times> 'n world"

definition get_identity :: "'n transport \<Rightarrow> client \<Rightarrow> 'n world \<Rightarrow> 'n outcome" where
  "get_identity tr self w =
     (case requests_get tr (api_url self @ ''/api/identity'') w of
        (Inl e, w') \<Rightarrow> (Inl e, self, w')
      | (Inr response, w') \<Rightarrow> (response_json response, self, w'))"

definition sign ::
  "'n transport \<Rightarrow> client \<Rightarrow> json_value \<Rightarrow> json_value option \<Rightarrow> 'n world \<Rightarrow> 'n outcome" where
  "sign tr self message protocol_arg w =
     (let protocol = (case protocol_arg of None \<Rightarrow> JStr ''agent message'' | Some p \<Rightarrow> p)
      in case requests_post tr (api_url self @ ''/api/sign'')
                (JObj [(''message'', message), (''protocol'', protocol)]) w of
           (Inl e, w') \<Rightarrow> (Inl e, self, w')
         | (Inr response, w') \<Rightarrow> (response_json response, self, w'))"

definition encrypt ::
  "'n transport \<Rightarrow> client \<Rightarrow> json_value \<Rightarrow> json_value option \<Rightarrow> json_value option \<Rightarrow>
     json_value option \<Rightarrow> 'n world \<Rightarrow> 'n outcome" where
  "encrypt tr self data protocol_arg key_id_arg counterparty_arg w =
     (let protocol = (case protocol_arg of None \<Rightarrow> JStr ''agent memory'' | Some p \<Rightarrow> p);
          key_id = (case key_id_arg of None \<Rightarrow> JStr ''default'' | Some k \<Rightarrow> k);
          counterparty = (case counterparty_arg of None \<Rightarrow> JStr ''self'' | Some c \<Rightarrow> c)
      in case requests_post tr (api_url self @ ''/api/encrypt'')
                (JObj [(''data'', data), (''protocol'', protocol), (''keyId'', key_id),
                       (''counterparty'', counterparty)]) w of
           (Inl e, w') \<Rightarrow> (Inl e, self, w')
         | (Inr response, w') \<Rightarrow> (response_json response, self, w'))"

definition decrypt ::
  "'n transport \<Rightarrow> client \<Rightarrow> json_value \<Rightarrow> json_value option \<Rightarrow> json_value option \<Rightarrow>
     json_value option \<Rightarrow> 'n world \<Rightarrow> 'n outcome" where
  "decrypt tr self ciphertext protocol_arg key_id_arg counterparty_arg w =
     (let protocol = (case protocol_arg of None \<Rightarrow> JStr ''agent memory'' | Some p \<Rightarrow> p);
          key_id = (case key_id_arg of None \<Rightarrow> JStr ''default'' | Some k \<Rightarrow> k);
          counterparty = (case counterparty_arg of None \<Rightarrow> JStr ''self'' | Some c \<Rightarrow> c)
      in case requests_post tr (api_url self @ ''/api/decrypt'')
                (JObj [(''ciphertext'', ciphertext), (''protocol'', protocol),
                       (''keyId'', key_id), (''counterparty'', counterparty)]) w of
           (Inl e, w') \<Rightarrow> (Inl e, self, w')
         | (Inr response, w') \<Rightarrow> (response_json response, self, w'))"

definition check_balance :: "'n transport \<Rightarrow> client \<Rightarrow> 'n world \<Rightarrow> 'n outcome" where
  "check_balance tr self w =
     (case requests_get tr (api_url self @ ''/api/balance'') w of
        (Inl e, w') \<Rightarrow> (Inl e, self, w')
      | (Inr response, w') \<Rightarrow> (response_json response, self, w'))"

subsection \<open>Observing a call\<close>

text \<open>
  What a call returned or raised, the client after it, the world after it, and the
  exchanges and requests it added to the log of the world \<open>w\<close> it started in.
\<close>

definition result_of :: "'r \<times> 's \<times> 'n world \<Rightarrow> 'r" where
  "result_of out = fst out"

definition client_after :: "'r \<times> client \<times> 'n world \<Rightarrow> client" where
  "client_after out = fst (snd out)"

definition world_after :: "'r \<times> 's \<times> 'n world \<Rightarrow> 'n world" where
  "world_after out = snd (snd out)"

definition exchanged :: "'n world \<Rightarrow> 'n world \<Rightarrow> (request \<times> (error + response)) list" where
  "exchanged w w' = drop (length (exchanges w)) (exchanges w')"

definition sent :: "'n world \<Rightarrow> 'n world \<Rightarrow> request list" where
  "sent w w' = map fst (exchanged w w')"

text \<open>
  The five operations as data, to speak of "every operation" and of a caller that
  makes several calls on one instance. \<open>invoke_all\<close> is a caller that goes on after
  a call that raised, and collects what each call returned or raised.
\<close>

datatype call =
    GetIdentity
  | Sign json_value "json_value option"
  | Encrypt json_value "json_value option" "json_value option" "json_value option"
  | Decrypt json_value "json_value option" "json_value option" "json_value option"
  | CheckBalance

fun invoke :: "'n transport \<Rightarrow> client \<Rightarrow> call \<Rightarrow> 'n world \<Rightarrow> 'n outcome" where
  "invoke tr self GetIdentity w = get_identity tr self w"
| "invoke tr self (Sign message protocol) w = sign tr self message protocol w"
| "invoke tr self (Encrypt data protocol key_id counterparty) w =
     encrypt tr self data protocol key_id counterparty w"
| "invoke tr self (Decrypt ciphertext protocol key_id counterparty) w =
     decrypt tr self ciphertext protocol key_id counterparty w"
| "invoke tr self CheckBalance w = check_balance tr self w"

fun invoke_all ::
  "'n transport \<Rightarrow> client \<Rightarrow> call list \<Rightarrow> 'n world \<Rightarrow>
     (error + json_value) list \<times> client \<times> 'n world" where
  "invoke_all tr self [] w = ([], self, w)"
| "invoke_all tr self (k # ks) w =
     (case invoke tr self k w of
        (r, self', w') \<Rightarrow>
          (case invoke_all tr self' ks w' of
             (rs, self'', w'') \<Rightarrow> (r # rs, self'', w'')))"

text \<open>
  The endpoint table of the spec (section 6), one row per operation, to compare the
  requests of the code with.
\<close>

fun spec_verb :: "call \<Rightarrow> http_verb" where
  "spec_verb GetIdentity = GET"
| "spec_verb (Sign m p) = POST"
| "spec_verb (Encrypt d p k c) = POST"
| "spec_verb (Decrypt t p k c) = POST"
| "spec_verb CheckBalance = GET"

fun spec_path :: "call \<Rightarrow> string" where
  "spec_path GetIdentity = ''/api/identity''"
| "spec_path (Sign m p) = ''/api/sign''"
| "spec_path (Encrypt d p k c) = ''/api/encrypt''"
| "spec_path (Decrypt t p k c) = ''/api/decrypt''"
| "spec_path CheckBalance = ''/api/balance''"

subsection \<open>The demonstration driver\<close>

text \<open>
  \<open>v[key]\<close> with a string key: a dict gives the entry or \<open>KeyError\<close>; a list, a
  string, a number, a bool and \<open>None\<close> give \<open>TypeError\<close>.
\<close>

fun py_getitem :: "json_value \<Rightarrow> string \<Rightarrow> error + json_value" where
  "py_getitem (JObj kvs) key =
     (case map_of kvs key of None \<Rightarrow> Inl (KeyError key) | Some v \<Rightarrow> Inr v)"
| "py_getitem v key = Inl TypeError"





text \<open>
  The method-level outcome an exchange stands for: the transport's exception, or what
  \<open>response.json()\<close> makes of the response. A call succeeded when this is a value.
\<close>

definition reply_result :: "error + response \<Rightarrow> error + json_value" where
  "reply_result reply = (case reply of Inl e \<Rightarrow> Inl e | Inr r \<Rightarrow> response_json r)"


subsection \<open>The remote service, as far as the spec describes it\<close>

text \<open>
  Modelled from the spec: the \<open>/api/encrypt\<close> and \<open>/api/decrypt\<close> endpoints of the
  remote service, whose code is not in \<open>examples/python-client.py\<close>. The spec gives
  no algorithm, only the contract (sections 6 and 8): on
  \<open>POST /api/encrypt {data, protocol, keyId, counterparty}\<close> the service answers an
  object with a text field \<open>ciphertext\<close>, and on \<open>POST /api/decrypt\<close> of that
  ciphertext with the same \<open>protocol\<close>, \<open>keyId\<close> and \<open>counterparty\<close> it answers
  an object whose field \<open>plaintext\<close> is the data. \<open>service_round_trip tr n base d p k c\<close>
  says that the transport \<open>tr\<close>, from its state \<open>n\<close>, keeps this contract for
  the data \<open>d\<close> at the base URL \<open>base\<close>.
\<close>

definition service_round_trip ::
  "'n transport \<Rightarrow> 'n \<Rightarrow> string \<Rightarrow> string \<Rightarrow> json_value \<Rightarrow> json_value \<Rightarrow> json_value \<Rightarrow> bool" where
  "service_round_trip tr n base d p k c =
     (case tr n \<lparr>verb = POST, url = base @ ''/api/encrypt'',
                 json = Some (JObj [(''data'', JStr d), (''protocol'', p), (''keyId'', k),
                                    (''counterparty'', c)])\<rparr> of
        (Inl e, n1) \<Rightarrow> False
      | (Inr r1, n1) \<Rightarrow>
          (case decoded r1 of
             Some (JObj kvs1) \<Rightarrow>
               (case map_of kvs1 ''ciphertext'' of
                  Some (JStr ct) \<Rightarrow>
                    (case tr n1 \<lparr>verb = POST, url = base @ ''/api/decrypt'',
                                 json = Some (JObj [(''ciphertext'', JStr ct), (''protocol'', p),
                                                    (''keyId'', k), (''counterparty'', c)])\<rparr> of
                       (Inl e, n2) \<Rightarrow> False
                     | (Inr r2, n2) \<Rightarrow>
                         (case decoded r2 of
                            Some (JObj kvs2) \<Rightarrow> map_of kvs2 ''plaintext'' = Some (JStr d)
                          | _ \<Rightarrow> False))
                | _ \<Rightarrow> False)
           | _ \<Rightarrow> False))"

text \<open>
  Modelled from the spec: the round-trip expression of section 8,
  \<open>decrypt(encrypt(d, protocol=p, key_id=k, counterparty=c).ciphertext, protocol=p,
  key_id=k, counterparty=c).plaintext\<close>, evaluated with the two methods of the client
  and the subscripts the driver uses for the two fields.
\<close>

definition round_trip ::
  "'n transport \<Rightarrow> client \<Rightarrow> json_value \<Rightarrow> json_value option \<Rightarrow> json_value option \<Rightarrow>
     json_value option \<Rightarrow> 'n world \<Rightarrow> 'n outcome" where
  "round_trip tr self d p k c w =
     (case encrypt tr self d p k c w of
        (Inl e, self1, w1) \<Rightarrow> (Inl e, self1, w1)
      | (Inr encrypted, self1, w1) \<Rightarrow>
          (case py_getitem encrypted ''ciphertext'' of
             Inl e \<Rightarrow> (Inl e, self1, w1)
           | Inr ct \<Rightarrow>
               (case decrypt tr self1 ct p k c w1 of
                  (Inl e, self2, w2) \<Rightarrow> (Inl e, self2, w2)
                | (Inr decrypted, self2, w2) \<Rightarrow>
                    (py_getitem decrypted ''plaintext'', self2, w2))))"

subsection \<open>Services to run the client against\<close>

text \<open>
  A stand-in service at the default base URL, with no state, for concrete runs. It
  answers status 200 everywhere; its "encryption" hands the data back as the
  ciphertext. Its answer to \<open>/api/balance\<close> is the parameter \<open>balance_body\<close>.
\<close>

definition ok :: "json_value \<Rightarrow> error + response" where
  "ok v = Inr \<lparr>status_code = 200, decoded = Some v\<rparr>"

definition field_of :: "json_value option \<Rightarrow> string \<Rightarrow> json_value" where
  "field_of body key =
     (case body of
        Some (JObj kvs) \<Rightarrow> (case map_of kvs key of Some v \<Rightarrow> v | None \<Rightarrow> JNull)
      | _ \<Rightarrow> JNull)"

definition mock_service :: "json_value \<Rightarrow> unit transport" where
  "mock_service balance_body n req =
     (if url req = ''http://localhost:3000/api/identity''
        then (ok (JObj [(''publicKey'', JStr ''02abc...'')]), n)
      else if url req = ''http://localhost:3000/api/sign''
        then (ok (JObj [(''signature'', JStr ''3045'')]), n)
      else if url req = ''http://localhost:3000/api/encrypt''
        then (ok (JObj [(''ciphertext'', field_of (json req) ''data'')]), n)
      else if url req = ''http://localhost:3000/api/decrypt''
        then (ok (JObj [(''plaintext'', field_of (json req) ''ciphertext'')]), n)
      else if url req = ''http://localhost:3000/api/balance''
        then (ok balance_body, n)
      else (Inl ConnectionError, n))"

text \<open>A service that answers every request with status 500 and a JSON error body.\<close>

definition failing_service :: "unit transport" where
  "failing_service n req =
     (Inr \<lparr>status_code = 500, decoded = Some (JObj [(''error'', JStr ''internal'')])\<rparr>, n)"

text \<open>A port nobody listens on: every request raises.\<close>

definition unreachable :: "unit transport" where
  "unreachable n req = (Inl ConnectionError, n)"

definition world0 :: "unit world" where
  "world0 = \<lparr>exchanges = [], net = ()\<rparr>"

section \<open>Properties\<close>

text \<open>
  Each method, written out: one request to the transport, the exchange appended to the
  log, \<open>self\<close> as it was, and the reply turned into the method's result.
\<close>

lemma get_identity_eq:
  "get_identity tr self w =
     (let req = \<lparr>verb = GET, url = api_url self @ ''/api/identity'', json = None\<rparr>;
          reply = fst (tr (net w) req)
      in (reply_result reply, self,
          \<lparr>exchanges = exchanges w @ [(req, reply)], net = snd (tr (net w) req)\<rparr>))"
  by (simp add: get_identity_def requests_get_def requests_request_def reply_result_def Let_def
           split: prod.splits sum.splits)

lemma check_balance_eq:
  "check_balance tr self w =
     (let req = \<lparr>verb = GET, url = api_url self @ ''/api/balance'', json = None\<rparr>;
          reply = fst (tr (net w) req)
      in (reply_result reply, self,
          \<lparr>exchanges = exchanges w @ [(req, reply)], net = snd (tr (net w) req)\<rparr>))"
  by (simp add: check_balance_def requests_get_def requests_request_def reply_result_def Let_def
           split: prod.splits sum.splits)

lemma sign_eq:
  "sign tr self message protocol_arg w =
     (let req = \<lparr>verb = POST, url = api_url self @ ''/api/sign'',
                 json = Some (JObj [(''message'', message),
                   (''protocol'',
                    case protocol_arg of None \<Rightarrow> JStr ''agent message'' | Some p \<Rightarrow> p)])\<rparr>;
          reply = fst (tr (net w) req)
      in (reply_result reply, self,
          \<lparr>exchanges = exchanges w @ [(req, reply)], net = snd (tr (net w) req)\<rparr>))"
  by (simp add: sign_def requests_post_def requests_request_def reply_result_def Let_def
           split: prod.splits sum.splits)

lemma encrypt_eq:
  "encrypt tr self data protocol_arg key_id_arg counterparty_arg w =
     (let req = \<lparr>verb = POST, url = api_url self @ ''/api/encrypt'',
                 json = Some (JObj [(''data'', data),
                   (''protocol'',
                    case protocol_arg of None \<Rightarrow> JStr ''agent memory'' | Some p \<Rightarrow> p),
                   (''keyId'', case key_id_arg of None \<Rightarrow> JStr ''default'' | Some k \<Rightarrow> k),
                   (''counterparty'',
                    case counterparty_arg of None \<Rightarrow> JStr ''self'' | Some c \<Rightarrow> c)])\<rparr>;
          reply = fst (tr (net w) req)
      in (reply_result reply, self,
          \<lparr>exchanges = exchanges w @ [(req, reply)], net = snd (tr (net w) req)\<rparr>))"
  by (simp add: encrypt_def requests_post_def requests_request_def reply_result_def Let_def
           split: prod.splits sum.splits)

lemma decrypt_eq:
  "decrypt tr self ciphertext protocol_arg key_id_arg counterparty_arg w =
     (let req = \<lparr>verb = POST, url = api_url self @ ''/api/decrypt'',
                 json = Some (JObj [(''ciphertext'', ciphertext),
                   (''protocol'',
                    case protocol_arg of None \<Rightarrow> JStr ''agent memory'' | Some p \<Rightarrow> p),
                   (''keyId'', case key_id_arg of None \<Rightarrow> JStr ''default'' | Some k \<Rightarrow> k),
                   (''counterparty'',
                    case counterparty_arg of None \<Rightarrow> JStr ''self'' | Some c \<Rightarrow> c)])\<rparr>;
          reply = fst (tr (net w) req)
      in (reply_result reply, self,
          \<lparr>exchanges = exchanges w @ [(req, reply)], net = snd (tr (net w) req)\<rparr>))"
  by (simp add: decrypt_def requests_post_def requests_request_def reply_result_def Let_def
           split: prod.splits sum.splits)

lemmas method_eqs = get_identity_eq sign_eq encrypt_eq decrypt_eq check_balance_eq

lemma exchanged_append:
  "exchanged w \<lparr>exchanges = exchanges w @ xs, net = n\<rparr> = xs"
  by (simp add: exchanged_def)

lemma sent_append:
  "sent w \<lparr>exchanges = exchanges w @ xs, net = n\<rparr> = map fst xs"
  by (simp add: sent_def exchanged_def)

text \<open>
  C1. Every operation issues one request, with the method and the path of the spec's
  table on the client's base URL: \<open>get_identity\<close> issues GET \<open>/api/identity\<close>,
  \<open>sign\<close> POST \<open>/api/sign\<close>, \<open>encrypt\<close> POST \<open>/api/encrypt\<close>, \<open>decrypt\<close>
  POST \<open>/api/decrypt\<close> and \<open>check_balance\<close> GET \<open>/api/balance\<close>, whatever the
  arguments, the transport and the world.
\<close>

theorem operations_target_method_and_path:
  "map (\<lambda>q. (verb q, url q)) (sent w (world_after (get_identity tr c w)))
     = [(GET, api_url c @ ''/api/identity'')]
   \<and> map (\<lambda>q. (verb q, url q)) (sent w (world_after (sign tr c message protocol w)))
     = [(POST, api_url c @ ''/api/sign'')]
   \<and> map (\<lambda>q. (verb q, url q))
        (sent w (world_after (encrypt tr c data protocol key_id counterparty w)))
     = [(POST, api_url c @ ''/api/encrypt'')]
   \<and> map (\<lambda>q. (verb q, url q))
        (sent w (world_after (decrypt tr c ciphertext protocol key_id counterparty w)))
     = [(POST, api_url c @ ''/api/decrypt'')]
   \<and> map (\<lambda>q. (verb q, url q)) (sent w (world_after (check_balance tr c w)))
     = [(GET, api_url c @ ''/api/balance'')]"
  by (simp add: method_eqs world_after_def sent_append Let_def)

text \<open>
  C2. The body of each POST is the field list of the spec, in the order of the source:
  \<open>sign\<close> sends \<open>{message, protocol}\<close>, \<open>encrypt\<close> sends
  \<open>{data, protocol, keyId, counterparty}\<close> and \<open>decrypt\<close> sends
  \<open>{ciphertext, protocol, keyId, counterparty}\<close>; an argument left out takes its
  default (\<open>"agent message"\<close> for the protocol of \<open>sign\<close>; \<open>"agent memory"\<close>,
  \<open>"default"\<close> and \<open>"self"\<close> for the other two), and \<open>key_id\<close> goes under the
  key \<open>keyId\<close>.
\<close>

theorem post_bodies_are_the_specified_fields:
  "map json (sent w (world_after (sign tr c message protocol w)))
     = [Some (JObj [(''message'', message),
                    (''protocol'',
                     case protocol of None \<Rightarrow> JStr ''agent message'' | Some p \<Rightarrow> p)])]
   \<and> map json (sent w (world_after (encrypt tr c data protocol key_id counterparty w)))
     = [Some (JObj [(''data'', data),
                    (''protocol'',
                     case protocol of None \<Rightarrow> JStr ''agent memory'' | Some p \<Rightarrow> p),
                    (''keyId'', case key_id of None \<Rightarrow> JStr ''default'' | Some k \<Rightarrow> k),
                    (''counterparty'',
                     case counterparty of None \<Rightarrow> JStr ''self'' | Some x \<Rightarrow> x)])]
   \<and> map json (sent w (world_after (decrypt tr c ciphertext protocol key_id counterparty w)))
     = [Some (JObj [(''ciphertext'', ciphertext),
                    (''protocol'',
                     case protocol of None \<Rightarrow> JStr ''agent memory'' | Some p \<Rightarrow> p),
                    (''keyId'', case key_id of None \<Rightarrow> JStr ''default'' | Some k \<Rightarrow> k),
                    (''counterparty'',
                     case counterparty of None \<Rightarrow> JStr ''self'' | Some x \<Rightarrow> x)])]"
  by (simp add: method_eqs world_after_def sent_append Let_def)

text \<open>
  Any of the five operations, in one shape: the request has the verb and the path of
  the spec's table, the client comes back as it was, and the result is the reply's.
\<close>

lemma invoke_eq:
  "\<exists>req. verb req = spec_verb k \<and> url req = api_url c @ spec_path k \<and>
     invoke tr c k w =
       (reply_result (fst (tr (net w) req)), c,
        \<lparr>exchanges = exchanges w @ [(req, fst (tr (net w) req))],
           net = snd (tr (net w) req)\<rparr>)"
  by (cases k) (simp_all add: method_eqs Let_def)

lemma invoke_client: "client_after (invoke tr c k w) = c"
  using invoke_eq [of k c tr w] by (auto simp: client_after_def)

lemma invoke_all_eq:
  "\<exists>xs. map (\<lambda>x. (verb (fst x), url (fst x))) xs
            = map (\<lambda>k. (spec_verb k, api_url c @ spec_path k)) ks \<and>
     client_after (invoke_all tr c ks w) = c \<and>
     exchanges (world_after (invoke_all tr c ks w)) = exchanges w @ xs"
proof (induction ks arbitrary: w)
  case Nil
  show ?case by (simp add: client_after_def world_after_def)
next
  case (Cons k ks)
  obtain req where v: "verb req = spec_verb k" and u: "url req = api_url c @ spec_path k"
    and eq: "invoke tr c k w =
       (reply_result (fst (tr (net w) req)), c,
        \<lparr>exchanges = exchanges w @ [(req, fst (tr (net w) req))],
           net = snd (tr (net w) req)\<rparr>)"
    using invoke_eq by blast
  let ?w' = "\<lparr>exchanges = exchanges w @ [(req, fst (tr (net w) req))],
               net = snd (tr (net w) req)\<rparr>"
  from Cons.IH [of ?w'] obtain xs where
    xs: "map (\<lambda>x. (verb (fst x), url (fst x))) xs
           = map (\<lambda>k. (spec_verb k, api_url c @ spec_path k)) ks"
    and cl: "client_after (invoke_all tr c ks ?w') = c"
    and ex: "exchanges (world_after (invoke_all tr c ks ?w')) = exchanges ?w' @ xs"
    by blast
  have "map (\<lambda>x. (verb (fst x), url (fst x))) ((req, fst (tr (net w) req)) # xs)
          = map (\<lambda>k. (spec_verb k, api_url c @ spec_path k)) (k # ks)"
    using xs v u by simp
  moreover have "client_after (invoke_all tr c (k # ks) w) = c"
    using cl eq by (auto simp: client_after_def split: prod.splits)
  moreover have "exchanges (world_after (invoke_all tr c (k # ks) w))
          = exchanges w @ ((req, fst (tr (net w) req)) # xs)"
    using ex eq by (auto simp: world_after_def split: prod.splits)
  ultimately show ?case by blast
qed

text \<open>
  C3, as the claim states it, fails: the script never reads the status of a response.
  Against a service that answers status 500 with a JSON error body, \<open>get_identity\<close>
  raises nothing and returns the decoded body of the failed response.
\<close>

theorem non_success_status_is_returned_counterexample:
  "exchanged world0 (world_after (get_identity failing_service (AGIdentityClient None) world0))
     = [(\<lparr>verb = GET, url = ''http://localhost:3000/api/identity'', json = None\<rparr>,
         Inr \<lparr>status_code = 500, decoded = Some (JObj [(''error'', JStr ''internal'')])\<rparr>)]
   \<and> result_of (get_identity failing_service (AGIdentityClient None) world0)
     = Inr (JObj [(''error'', JStr ''internal'')])"
  by (simp add: get_identity_eq Let_def world_after_def result_of_def exchanged_def world0_def
        failing_service_def AGIdentityClient_def AGID_API_def reply_result_def
        response_json_def)

text \<open>
  C3, amended. Every operation makes exactly one exchange, and its result depends on
  the reply alone: when the transport raises, the operation raises the same exception;
  when a response comes back, of whatever status, the operation returns its decoded
  body, and raises \<open>JSONDecodeError\<close> when the body is not JSON.
\<close>

theorem errors_come_from_transport_and_decoding_only:
  "\<exists>req reply.
     exchanged w (world_after (invoke tr c k w)) = [(req, reply)] \<and>
     reply = fst (tr (net w) req) \<and>
     result_of (invoke tr c k w) =
       (case reply of
          Inl e \<Rightarrow> Inl e
        | Inr r \<Rightarrow> (case decoded r of None \<Rightarrow> Inl JSONDecodeError | Some v \<Rightarrow> Inr v))"
proof -
  obtain req where
    "invoke tr c k w =
       (reply_result (fst (tr (net w) req)), c,
        \<lparr>exchanges = exchanges w @ [(req, fst (tr (net w) req))],
           net = snd (tr (net w) req)\<rparr>)"
    using invoke_eq by blast
  then show ?thesis
    by (simp add: world_after_def result_of_def exchanged_append reply_result_def
          response_json_def split: sum.splits)
qed

text \<open>
  C4. Whatever operation is called and whatever JSON value \<open>v\<close> the body of the
  response decodes to, the operation returns \<open>v\<close> itself: nothing is validated,
  extracted or changed.
\<close>

theorem decoded_body_is_returned_unchanged:
  assumes "exchanged w (world_after (invoke tr c k w)) = [(req, Inr r)]"
      and "decoded r = Some v"
    shows "result_of (invoke tr c k w) = Inr v"
proof -
  obtain req' where eq:
    "invoke tr c k w =
       (reply_result (fst (tr (net w) req')), c,
        \<lparr>exchanges = exchanges w @ [(req', fst (tr (net w) req'))],
           net = snd (tr (net w) req')\<rparr>)"
    using invoke_eq by blast
  from assms(1) have "fst (tr (net w) req') = Inr r"
    unfolding eq by (auto simp: world_after_def exchanged_append)
  with assms(2) show ?thesis
    unfolding eq by (simp add: result_of_def reply_result_def response_json_def)
qed

theorem decoded_body_is_returned_unchanged_witness:
  "exchanged world0
     (world_after (invoke (mock_service JNull) (AGIdentityClient None) GetIdentity world0))
     = [(\<lparr>verb = GET, url = ''http://localhost:3000/api/identity'', json = None\<rparr>,
         Inr \<lparr>status_code = 200,
               decoded = Some (JObj [(''publicKey'', JStr ''02abc...'')])\<rparr>)]
   \<and> result_of (invoke (mock_service JNull) (AGIdentityClient None) GetIdentity world0)
     = Inr (JObj [(''publicKey'', JStr ''02abc...'')])
   \<and> py_getitem (JObj [(''publicKey'', JStr ''02abc...'')]) ''publicKey''
     = Inr (JStr ''02abc...'')"
proof -
  have ex: "exchanged world0
     (world_after (invoke (mock_service JNull) (AGIdentityClient None) GetIdentity world0))
     = [(\<lparr>verb = GET, url = ''http://localhost:3000/api/identity'', json = None\<rparr>,
         Inr \<lparr>status_code = 200,
               decoded = Some (JObj [(''publicKey'', JStr ''02abc...'')])\<rparr>)]"
    by (simp add: get_identity_eq Let_def world_after_def exchanged_def world0_def
          mock_service_def ok_def AGIdentityClient_def AGID_API_def)
  have "decoded \<lparr>status_code = 200,
                 decoded = Some (JObj [(''publicKey'', JStr ''02abc...'')])\<rparr>
          = Some (JObj [(''publicKey'', JStr ''02abc...'')])"
    by simp
  from decoded_body_is_returned_unchanged [OF ex this] ex show ?thesis by simp
qed

text \<open>
  C5. The base URL is all a client holds: a client is the one its base URL constructs.
  No operation changes it, whatever the arguments and the reply, and neither does any
  sequence of calls on the same instance.
\<close>

theorem operations_leave_the_client_unchanged:
  "client_after (invoke tr c k w) = c
   \<and> client_after (invoke_all tr c ks w) = c
   \<and> AGIdentityClient (Some (api_url c)) = c"
  using invoke_all_eq [of c ks tr w] by (auto simp: invoke_client AGIdentityClient_def)

text \<open>
  C6. Without an argument the base URL is \<open>http://localhost:3000\<close>, the loopback
  host on port 3000; a base URL given at construction replaces it, and every request of
  every later call on the instance goes to the path of its operation on that base URL.
\<close>

theorem base_url_default_and_override:
  "api_url (AGIdentityClient None) = ''http://localhost:3000''
   \<and> api_url (AGIdentityClient (Some u)) = u
   \<and> map url (sent w (world_after (invoke_all tr (AGIdentityClient None) ks w)))
       = map (\<lambda>k. ''http://localhost:3000'' @ spec_path k) ks
   \<and> map url (sent w (world_after (invoke_all tr (AGIdentityClient (Some u)) ks w)))
       = map (\<lambda>k. u @ spec_path k) ks"
proof -
  have *: "map url (sent w (world_after (invoke_all tr c ks w)))
             = map (\<lambda>k. api_url c @ spec_path k) ks" for c
  proof -
    obtain xs where
      xs: "map (\<lambda>x. (verb (fst x), url (fst x))) xs
             = map (\<lambda>k. (spec_verb k, api_url c @ spec_path k)) ks"
      and ex: "exchanges (world_after (invoke_all tr c ks w)) = exchanges w @ xs"
      using invoke_all_eq [of c ks tr w] by blast
    from xs have "map snd (map (\<lambda>x. (verb (fst x), url (fst x))) xs)
        = map snd (map (\<lambda>k. (spec_verb k, api_url c @ spec_path k)) ks)" by simp
    then have "map (\<lambda>x. url (fst x)) xs = map (\<lambda>k. api_url c @ spec_path k) ks"
      by (simp add: comp_def)
    with ex show ?thesis by (simp add: sent_def exchanged_def comp_def)
  qed
  show ?thesis
    using * [of "AGIdentityClient None"] * [of "AGIdentityClient (Some u)"]
    by (simp add: AGIdentityClient_def AGID_API_def)
qed







text \<open>
  C8. The round trip holds through the client whenever the service keeps the contract
  of the spec: if the service, from the state the world is in, answers the encrypt
  request for \<open>d\<close> with a ciphertext and the decrypt request for that ciphertext,
  under the same protocol, key identifier and counterparty, with the plaintext \<open>d\<close>,
  then \<open>decrypt(encrypt(d, p, k, c).ciphertext, p, k, c).plaintext\<close> evaluated with
  the client is \<open>d\<close>. This holds for every text \<open>d\<close>, so for every non-empty one,
  and for arguments given or left to their defaults.
\<close>

theorem round_trip_through_the_client:
  assumes "service_round_trip tr (net w) (api_url self) d
             (case p of None \<Rightarrow> JStr ''agent memory'' | Some x \<Rightarrow> x)
             (case k of None \<Rightarrow> JStr ''default'' | Some x \<Rightarrow> x)
             (case c of None \<Rightarrow> JStr ''self'' | Some x \<Rightarrow> x)"
    shows "result_of (round_trip tr self (JStr d) p k c w) = Inr (JStr d)"
proof -
  let ?p = "case p of None \<Rightarrow> JStr ''agent memory'' | Some x \<Rightarrow> x"
  let ?k = "case k of None \<Rightarrow> JStr ''default'' | Some x \<Rightarrow> x"
  let ?c = "case c of None \<Rightarrow> JStr ''self'' | Some x \<Rightarrow> x"
  let ?q1 = "\<lparr>verb = POST, url = api_url self @ ''/api/encrypt'',
               json = Some (JObj [(''data'', JStr d), (''protocol'', ?p), (''keyId'', ?k),
                                  (''counterparty'', ?c)])\<rparr>"
  from assms obtain r1 n1 where t1: "tr (net w) ?q1 = (Inr r1, n1)"
    by (auto simp: service_round_trip_def split: prod.splits sum.splits)
  from assms t1 obtain kvs1 where d1: "decoded r1 = Some (JObj kvs1)"
    by (auto simp: service_round_trip_def split: option.splits json_value.splits)
  from assms t1 d1 obtain ct where c1: "map_of kvs1 ''ciphertext'' = Some (JStr ct)"
    by (auto simp: service_round_trip_def split: option.splits json_value.splits)
  let ?q2 = "\<lparr>verb = POST, url = api_url self @ ''/api/decrypt'',
               json = Some (JObj [(''ciphertext'', JStr ct), (''protocol'', ?p), (''keyId'', ?k),
                                  (''counterparty'', ?c)])\<rparr>"
  from assms t1 d1 c1 obtain r2 n2 where t2: "tr n1 ?q2 = (Inr r2, n2)"
    by (auto simp: service_round_trip_def split: prod.splits sum.splits)
  from assms t1 d1 c1 t2 obtain kvs2 where d2: "decoded r2 = Some (JObj kvs2)"
    by (auto simp: service_round_trip_def split: option.splits json_value.splits)
  from assms t1 d1 c1 t2 d2 have p2: "map_of kvs2 ''plaintext'' = Some (JStr d)"
    by (simp add: service_round_trip_def)
  show ?thesis
    using t1 d1 c1 t2 d2 p2
    by (simp add: round_trip_def encrypt_eq decrypt_eq Let_def result_of_def
          reply_result_def response_json_def)
qed

theorem round_trip_through_the_client_witness:
  "service_round_trip (mock_service JNull) (net world0) (api_url (AGIdentityClient None))
     ''My secret memory'' (JStr ''agent memory'') (JStr ''default'') (JStr ''self'')
   \<and> result_of (round_trip (mock_service JNull) (AGIdentityClient None)
        (JStr ''My secret memory'') None None None world0) = Inr (JStr ''My secret memory'')"
proof -
  have h: "service_round_trip (mock_service JNull) (net world0) (api_url (AGIdentityClient None))
     ''My secret memory'' (JStr ''agent memory'') (JStr ''default'') (JStr ''self'')"
    by (simp add: service_round_trip_def mock_service_def ok_def field_of_def world0_def
          AGIdentityClient_def AGID_API_def)
  from round_trip_through_the_client [of "mock_service JNull" world0 "AGIdentityClient None" "''My secret memory''" None None None]
    h show ?thesis by simp
qed

text \<open>
  C9. Nothing is validated locally: for every string \<open>s\<close>, the empty one included,
  \<open>sign\<close>, \<open>encrypt\<close> and \<open>decrypt\<close> hand the request with \<open>s\<close> in its body
  to the transport, and what they return or raise is what the reply gives: an error
  can only be the transport's or the decoder's.
\<close>

theorem no_local_validation:
  "sent w (world_after (sign tr c (JStr s) protocol w))
     = [\<lparr>verb = POST, url = api_url c @ ''/api/sign'',
         json = Some (JObj [(''message'', JStr s),
           (''protocol'', case protocol of None \<Rightarrow> JStr ''agent message'' | Some p \<Rightarrow> p)])\<rparr>]
   \<and> result_of (sign tr c (JStr s) protocol w)
     = reply_result (fst (tr (net w)
         \<lparr>verb = POST, url = api_url c @ ''/api/sign'',
          json = Some (JObj [(''message'', JStr s),
            (''protocol'', case protocol of None \<Rightarrow> JStr ''agent message'' | Some p \<Rightarrow> p)])\<rparr>))
   \<and> sent w (world_after (encrypt tr c (JStr s) protocol key_id counterparty w))
     = [\<lparr>verb = POST, url = api_url c @ ''/api/encrypt'',
         json = Some (JObj [(''data'', JStr s),
           (''protocol'', case protocol of None \<Rightarrow> JStr ''agent memory'' | Some p \<Rightarrow> p),
           (''keyId'', case key_id of None \<Rightarrow> JStr ''default'' | Some k \<Rightarrow> k),
           (''counterparty'', case counterparty of None \<Rightarrow> JStr ''self'' | Some x \<Rightarrow> x)])\<rparr>]
   \<and> result_of (encrypt tr c (JStr s) protocol key_id counterparty w)
     = reply_result (fst (tr (net w)
         \<lparr>verb = POST, url = api_url c @ ''/api/encrypt'',
          json = Some (JObj [(''data'', JStr s),
           (''protocol'', case protocol of None \<Rightarrow> JStr ''agent memory'' | Some p \<Rightarrow> p),
           (''keyId'', case key_id of None \<Rightarrow> JStr ''default'' | Some k \<Rightarrow> k),
           (''counterparty'', case counterparty of None \<Rightarrow> JStr ''self'' | Some x \<Rightarrow> x)])\<rparr>))
   \<and> sent w (world_after (decrypt tr c (JStr s) protocol key_id counterparty w))
     = [\<lparr>verb = POST, url = api_url c @ ''/api/decrypt'',
         json = Some (JObj [(''ciphertext'', JStr s),
           (''protocol'', case protocol of None \<Rightarrow> JStr ''agent memory'' | Some p \<Rightarrow> p),
           (''keyId'', case key_id of None \<Rightarrow> JStr ''default'' | Some k \<Rightarrow> k),
           (''counterparty'', case counterparty of None \<Rightarrow> JStr ''self'' | Some x \<Rightarrow> x)])\<rparr>]
   \<and> result_of (decrypt tr c (JStr s) protocol key_id counterparty w)
     = reply_result (fst (tr (net w)
         \<lparr>verb = POST, url = api_url c @ ''/api/decrypt'',
          json = Some (JObj [(''ciphertext'', JStr s),
           (''protocol'', case protocol of None \<Rightarrow> JStr ''agent memory'' | Some p \<Rightarrow> p),
           (''keyId'', case key_id of None \<Rightarrow> JStr ''default'' | Some k \<Rightarrow> k),
           (''counterparty'', case counterparty of None \<Rightarrow> JStr ''self'' | Some x \<Rightarrow> x)])\<rparr>))"
  by (simp add: method_eqs world_after_def result_of_def sent_append Let_def)

theorem no_local_validation_witness:
  "sent world0 (world_after (sign (mock_service JNull) (AGIdentityClient None) (JStr '''') None world0))
     = [\<lparr>verb = POST, url = ''http://localhost:3000/api/sign'',
         json = Some (JObj [(''message'', JStr ''''), (''protocol'', JStr ''agent message'')])\<rparr>]
   \<and> result_of (sign (mock_service JNull) (AGIdentityClient None) (JStr '''') None world0)
     = Inr (JObj [(''signature'', JStr ''3045'')])"
  using no_local_validation [of world0 "mock_service JNull" "AGIdentityClient None" "''''" None None None]
  by (simp add: AGIdentityClient_def AGID_API_def world0_def mock_service_def ok_def
        reply_result_def response_json_def)

text \<open>
  C10. The request of a call depends on the base URL and the arguments only: two
  clients with the same base URL, each after calls of its own (\<open>ks1\<close>, \<open>ks2\<close>)
  against a transport and a world of its own, send the same request for the same call
  \<open>k\<close>.
\<close>

theorem request_construction_is_deterministic:
  assumes "api_url c1 = api_url c2"
  shows "sent (world_after (invoke_all tr1 c1 ks1 w1))
           (world_after (invoke tr1 (client_after (invoke_all tr1 c1 ks1 w1)) k
              (world_after (invoke_all tr1 c1 ks1 w1))))
       = sent (world_after (invoke_all tr2 c2 ks2 w2))
           (world_after (invoke tr2 (client_after (invoke_all tr2 c2 ks2 w2)) k
              (world_after (invoke_all tr2 c2 ks2 w2))))"
proof -
  have cl1: "client_after (invoke_all tr1 c1 ks1 w1) = c1"
    using invoke_all_eq [of c1 ks1 tr1 w1] by blast
  have cl2: "client_after (invoke_all tr2 c2 ks2 w2) = c2"
    using invoke_all_eq [of c2 ks2 tr2 w2] by blast
  have "sent w (world_after (invoke tr c k w)) = sent w' (world_after (invoke tr' c' k w'))"
    if "api_url c = api_url c'" for tr :: "'x transport" and tr' :: "'y transport" and c c' w w'
    using that by (cases k) (simp_all add: method_eqs Let_def world_after_def sent_append)
  from this [OF assms] show ?thesis
    unfolding cl1 cl2 .
qed

theorem request_construction_is_deterministic_witness:
  "api_url (AGIdentityClient None) = api_url (AGIdentityClient (Some ''http://localhost:3000''))
   \<and> sent (world_after (invoke_all (mock_service JNull) (AGIdentityClient None)
              [GetIdentity, CheckBalance] world0))
         (world_after (invoke (mock_service JNull)
            (client_after (invoke_all (mock_service JNull) (AGIdentityClient None)
               [GetIdentity, CheckBalance] world0))
            (Sign (JStr ''hello'') None)
            (world_after (invoke_all (mock_service JNull) (AGIdentityClient None)
               [GetIdentity, CheckBalance] world0))))
     = sent (world_after (invoke_all unreachable
              (AGIdentityClient (Some ''http://localhost:3000'')) [] world0))
         (world_after (invoke unreachable
            (client_after (invoke_all unreachable
               (AGIdentityClient (Some ''http://localhost:3000'')) [] world0))
            (Sign (JStr ''hello'') None)
            (world_after (invoke_all unreachable
               (AGIdentityClient (Some ''http://localhost:3000'')) [] world0))))"
proof -
  have same: "api_url (AGIdentityClient None)
                = api_url (AGIdentityClient (Some ''http://localhost:3000''))"
    by (simp add: AGIdentityClient_def AGID_API_def)
  show ?thesis
    by (intro conjI same request_construction_is_deterministic [OF same])
qed

end
